theory Spec2Isabelle
  imports Main
begin

section \<open>Shared base: errors, text, outcomes\<close>

text \<open>
  A Go \<open>error\<close> value. \<open>ExtError nf msg\<close> is an error produced outside this code
  (the cluster API, the interactive prompt, \<open>os/exec\<close>): \<open>nf\<close> says whether
  \<open>k8serrors.IsNotFound\<close> holds of it and \<open>msg\<close> is its \<open>Error()\<close> text.
  \<open>Errorf msg\<close> is \<open>fmt.Errorf\<close> with the argument formatted by \<open>%v\<close> or \<open>%s\<close> (only text
  is kept); \<open>Wrapf p e\<close> is \<open>fmt.Errorf\<close> with format \<open>p\<close> followed by \<open>%w\<close>.
\<close>

datatype error = ExtError bool string | Errorf string | Wrapf string error

fun Error :: "error \<Rightarrow> string" where
  "Error (ExtError nf msg) = msg"
| "Error (Errorf msg) = msg"
| "Error (Wrapf p e) = p @ Error e"

fun IsNotFound :: "error \<Rightarrow> bool" where
  "IsNotFound (ExtError nf msg) = nf"
| "IsNotFound (Errorf msg) = False"
| "IsNotFound (Wrapf p e) = IsNotFound e"

text \<open>A Go call either returns or panics (a nil pointer dereference).\<close>

datatype 'a outcome = Return 'a | Panic

definition nl :: string where
  "nl = [CHR 0x0A]"

definition tab :: string where
  "tab = [CHR 0x09]"

definition quote :: string where
  "quote = [CHR 0x27]"

text \<open>The verb \<open>%d\<close> on a non-negative integer.\<close>

fun itoa :: "nat \<Rightarrow> string" where
  "itoa n = (if n < 10 then [char_of (48 + n)] else itoa (n div 10) @ [char_of (48 + n mod 10)])"

declare itoa.simps [simp del]

text \<open>\<open>strings.Contains s sub\<close>.\<close>

fun HasPrefix :: "string \<Rightarrow> string \<Rightarrow> bool" where
  "HasPrefix s [] = True"
| "HasPrefix [] (c # sub) = False"
| "HasPrefix (d # s) (c # sub) = (d = c \<and> HasPrefix s sub)"

fun Contains :: "string \<Rightarrow> string \<Rightarrow> bool" where
  "Contains [] sub = (sub = [])"
| "Contains (c # s) sub = (HasPrefix (c # s) sub \<or> Contains s sub)"

section \<open>Package debug\<close>

definition debuggerSuffix :: string where
  "debuggerSuffix = ''nais-debugger''"

definition debuggerContainerDefaultName :: string where
  "debuggerContainerDefaultName = ''debugger''"

record Config =
  Namespace :: string
  Context :: string
  WorkloadName :: string
  DebugImage :: string
  CopyPod :: bool
  ByPod :: bool

text \<open>
  The parts of a pod the code reads: its name, \<open>Spec.EphemeralContainers\<close> (only their number
  is used) and \<open>Status.ContainerStatuses\<close>, each with its name and whether
  \<open>State.Running\<close> is non-nil.
\<close>

record ContainerStatus =
  cs_Name :: string
  cs_Running :: bool

record Pod =
  pod_Name :: string
  EphemeralContainers :: "string list"
  ContainerStatuses :: "ContainerStatus list"

text \<open>
  What the program does to the outside world, in order: the four pterm printers with the text
  they print, the cluster requests, the sleeps (in seconds), the interactive selection with its
  options, and the start of and the wait for a child process with its full argument vector.
\<close>

datatype event =
    Info string
  | Success string
  | Warning string
  | ErrorMsg string
  | PodsList string string
  | PodsGet string string
  | Sleep nat
  | Select "string list"
  | CmdStart "string list"
  | CmdWait "string list"

text \<open>
  The outside world answers each request. The first argument of every answer is the number of
  times the same request has been made before, so that the answer to a repeated request (a
  poll) may change. \<open>Pods_List\<close> answers with the Go pair \<open>(*PodList, error)\<close>: the pointer
  may be nil (\<open>None\<close>), and \<open>Some items\<close> is a list with these \<open>Items\<close>. \<open>Pods_Get\<close> is read
  only after its error has been checked, so it answers with an error or a pod.
\<close>

record kube =
  Pods_List :: "nat \<Rightarrow> string \<Rightarrow> string \<Rightarrow> Pod list option \<times> error option"
  Pods_Get :: "nat \<Rightarrow> string \<Rightarrow> string \<Rightarrow> error + Pod"
  Select_Show :: "nat \<Rightarrow> string list \<Rightarrow> error + string"
  Cmd_Start :: "nat \<Rightarrow> string list \<Rightarrow> error option"
  Cmd_Wait :: "nat \<Rightarrow> string list \<Rightarrow> error option"

definition getPodsForWorkload ::
  "kube \<Rightarrow> Config \<Rightarrow> event list \<Rightarrow> (Pod list option \<times> error option) outcome \<times> event list" where
  "getPodsForWorkload k cfg tr =
    (let tr1 = tr @ [Info (''Fetching workload...'' @ nl)];
         ns = Namespace cfg;
         sel1 = ''app.kubernetes.io/name='' @ WorkloadName cfg;
         sel2 = ''app='' @ WorkloadName cfg;
         r1 = Pods_List k (count_list tr1 (PodsList ns sel1)) ns sel1;
         tr2 = tr1 @ [PodsList ns sel1]
     in case fst r1 of
          None \<Rightarrow> (Panic, tr2)
        | Some items \<Rightarrow>
            let (r, tr3) =
                  (if length items = 0
                   then (Pods_List k (count_list tr2 (PodsList ns sel2)) ns sel2,
                         tr2 @ [PodsList ns sel2])
                   else (r1, tr2))
            in case snd r of
                 Some err \<Rightarrow> (Return (None, Some (Wrapf ''failed to get pods: '' err)), tr3)
               | None \<Rightarrow> (Return (fst r, None), tr3))"

definition debuggerContainerName :: "string \<Rightarrow> string" where
  "debuggerContainerName podName = podName @ ''-'' @ debuggerSuffix"

text \<open>The argument vector \<open>cmd.Args\<close> that \<open>attachToExistingDebugContainer\<close> builds.\<close>

definition attachArgs :: "Config \<Rightarrow> string \<Rightarrow> string list" where
  "attachArgs cfg podName =
    (let args0 = [''kubectl'', ''attach'', ''-n'', Namespace cfg, ''pod/'' @ podName,
                  ''-c'', debuggerContainerDefaultName, ''-i'', ''-t'']
     in if Context cfg \<noteq> [] then args0 @ [''--context'', Context cfg] else args0)"

definition attachToExistingDebugContainer ::
  "kube \<Rightarrow> Config \<Rightarrow> string \<Rightarrow> event list \<Rightarrow> error option \<times> event list" where
  "attachToExistingDebugContainer k cfg podName tr =
    (let args = attachArgs cfg podName;
         tr1 = tr @ [CmdStart args]
     in case Cmd_Start k (count_list tr (CmdStart args)) args of
          Some err \<Rightarrow> (Some (Errorf (''failed to start attach command: '' @ Error err)), tr1)
        | None \<Rightarrow>
            let tr2 = tr1 @ [Success (''Attached to pod '' @ podName @ nl)];
                tr3 = tr2 @ [CmdWait args]
            in case Cmd_Wait k (count_list tr2 (CmdWait args)) args of
                 Some err \<Rightarrow> (Some (Errorf (''attach command failed: '' @ Error err)), tr3)
               | None \<Rightarrow> (None, tr3))"

text \<open>The argument vector of the \<open>kubectl debug\<close> command that \<open>createDebugPod\<close> builds.\<close>

definition createArgs :: "Config \<Rightarrow> string \<Rightarrow> string list" where
  "createArgs cfg podName =
    (let args0 = [''debug'', ''-n'', Namespace cfg, ''pod/'' @ podName, ''-it'', ''--stdin'',
                  ''--tty'', ''--profile=restricted'', ''-q'', ''--image'', DebugImage cfg];
         args1 = (if Context cfg \<noteq> [] then args0 @ [''--context'', Context cfg] else args0);
         args2 = (if CopyPod cfg
                  then args1 @ [''--copy-to'', debuggerContainerName podName, ''-c'', ''debugger'']
                  else args1 @ [''--target'', WorkloadName cfg])
     in ''kubectl'' # args2)"

definition createDebugPod ::
  "kube \<Rightarrow> Config \<Rightarrow> string \<Rightarrow> event list \<Rightarrow> error option \<times> event list" where
  "createDebugPod k cfg podName tr =
    (let argv = createArgs cfg podName;
         tr1 = tr @ [CmdStart argv]
     in case Cmd_Start k (count_list tr (CmdStart argv)) argv of
          Some err \<Rightarrow> (Some (Errorf (''failed to start debug command: '' @ Error err)), tr1)
        | None \<Rightarrow>
            let tr2 = tr1 @
                  [if CopyPod cfg
                   then Info (''Debugging pod copy created, enable process namespace sharing in ''
                              @ debuggerContainerName podName @ nl)
                   else Info (''Debugging container created...'' @ nl),
                   Info (''Using debugger image '' @ DebugImage cfg @ nl)];
                tr3 = tr2 @ [CmdWait argv]
            in case Cmd_Wait k (count_list tr2 (CmdWait argv)) argv of
                 Some err \<Rightarrow>
                   if Contains (Error err) ''exit status 1''
                   then (None, tr3 @ [Info (''Debugging container exited'' @ nl)])
                   else (Some (Errorf (''debug command failed: '' @ Error err)), tr3)
               | None \<Rightarrow>
                   (None,
                    if CopyPod cfg
                    then tr3 @ [Info (''Run '' @ quote @ ''nais debug -cp '' @ WorkloadName cfg
                                      @ quote @ '' command to attach to the debug pod'' @ nl)]
                    else tr3))"

definition maxRetries :: nat where
  "maxRetries = 6"

definition pollInterval :: nat where
  "pollInterval = 5"

definition debuggerRunning :: "Pod \<Rightarrow> bool" where
  "debuggerRunning pod =
     list_ex (\<lambda>c. cs_Name c = debuggerContainerDefaultName \<and> cs_Running c) (ContainerStatuses pod)"

text \<open>The polling loop of \<open>debugPod\<close>, from iteration \<open>i\<close> on.\<close>

function pollLoop ::
  "kube \<Rightarrow> Config \<Rightarrow> string \<Rightarrow> nat \<Rightarrow> event list \<Rightarrow> error option \<times> event list" where
  "pollLoop k cfg pN i tr =
    (if i < maxRetries then
       (let tr1 = tr @ [Info (''Attempt '' @ itoa (i + 1) @ ''/'' @ itoa maxRetries
                              @ '': Time remaining: '' @ itoa ((maxRetries - i) * pollInterval)
                              @ '' seconds'' @ nl)];
            tr2 = tr1 @ [PodsGet (Namespace cfg) pN]
        in case Pods_Get k (count_list tr1 (PodsGet (Namespace cfg) pN)) (Namespace cfg) pN of
             Inl err \<Rightarrow>
               (Some (Errorf (''failed to get debug pod copy '' @ pN @ '': '' @ Error err)), tr2)
           | Inr pod \<Rightarrow>
               if debuggerRunning pod
               then attachToExistingDebugContainer k cfg pN
                      (tr2 @ [Success (''Container is running. Attaching...'' @ nl)])
               else pollLoop k cfg pN (i + 1) (tr2 @ [Sleep pollInterval]))
     else (Some (Errorf ''container did not start within the expected time''), tr))"
  by pat_completeness auto
termination
  by (relation "measure (\<lambda>(k, cfg, pN, i, tr). maxRetries - i)") auto

declare pollLoop.simps [simp del]

definition debugPod ::
  "kube \<Rightarrow> Config \<Rightarrow> string \<Rightarrow> event list \<Rightarrow> error option \<times> event list" where
  "debugPod k cfg podName tr =
    (if CopyPod cfg then
       (let pN = debuggerContainerName podName;
            tr1 = tr @ [PodsGet (Namespace cfg) pN]
        in case Pods_Get k (count_list tr (PodsGet (Namespace cfg) pN)) (Namespace cfg) pN of
             Inr pod \<Rightarrow>
               pollLoop k cfg pN 0 (tr1 @ [Info (pN @ '' already exists, trying to attach...'' @ nl)])
           | Inl err \<Rightarrow>
               if \<not> IsNotFound err
               then (Some (Errorf (''failed to check for existing debug pod copy '' @ pN @ '': ''
                                   @ Error err)), tr1)
               else createDebugPod k cfg podName tr1)
     else
       (let tr1 = tr @ [PodsGet (Namespace cfg) podName]
        in case Pods_Get k (count_list tr (PodsGet (Namespace cfg) podName)) (Namespace cfg) podName of
             Inl err \<Rightarrow>
               (Some (Errorf (''failed to get pod '' @ podName @ '': '' @ Error err)), tr1)
           | Inr pod \<Rightarrow>
               createDebugPod k cfg podName
                 (if length (EphemeralContainers pod) > 0
                  then tr1 @
                    [Warning (''The container '' @ podName @ '' already has ''
                              @ itoa (length (EphemeralContainers pod))
                              @ '' terminated debug containers.'' @ nl),
                     Info (''Please consider using '' @ quote @ ''nais debug tidy ''
                           @ WorkloadName cfg @ quote @ '' to clean up'' @ nl)]
                  else tr1)))"

text \<open>The last step of \<open>Debug\<close>: the call of \<open>debugPod\<close> and what is done with its result.\<close>

definition debugChosen ::
  "kube \<Rightarrow> Config \<Rightarrow> string \<Rightarrow> event list \<Rightarrow> error option outcome \<times> event list" where
  "debugChosen k cfg podName tr =
    (case debugPod k cfg podName tr of
       (Some err, tr1) \<Rightarrow>
         (Return None,
          tr1 @ [ErrorMsg (''Failed to debug pod '' @ podName @ '': '' @ Error err @ nl)])
     | (None, tr1) \<Rightarrow> (Return None, tr1))"

definition Debug :: "kube \<Rightarrow> Config \<Rightarrow> event list \<Rightarrow> error option outcome \<times> event list" where
  "Debug k cfg tr =
    (case getPodsForWorkload k cfg tr of
       (Panic, tr1) \<Rightarrow> (Panic, tr1)
     | (Return (pods, Some err), tr1) \<Rightarrow> (Return (Some err), tr1)
     | (Return (None, None), tr1) \<Rightarrow> (Panic, tr1)
     | (Return (Some items, None), tr1) \<Rightarrow>
         (let podNames = map pod_Name items
          in if length podNames = 0
             then (Return None, tr1 @ [Info (''No pods found.'' @ nl)])
             else if ByPod cfg
             then (case Select_Show k (count_list tr1 (Select podNames)) podNames of
                     Inl err \<Rightarrow>
                       (Return (Some err),
                        tr1 @ [Select podNames, ErrorMsg (''Prompt failed: '' @ Error err @ nl)])
                   | Inr result \<Rightarrow> debugChosen k cfg result (tr1 @ [Select podNames]))
             else debugChosen k cfg (hd podNames) tr1))"

section \<open>Package migrate\<close>

text \<open>
  \<open>fmt.Sprintf\<close> for formats whose only verb is \<open>%s\<close>, as all formats of \<open>Setup\<close> are; an
  absent operand prints as Go prints it.
\<close>

fun Sprintf :: "string \<Rightarrow> string list \<Rightarrow> string" where
  "Sprintf [] args = []"
| "Sprintf [c] args = [c]"
| "Sprintf (c # d # f) args =
     (if c = CHR ''%'' \<and> d = CHR ''s''
      then (case args of
              [] \<Rightarrow> ''%!s(MISSING)'' @ Sprintf f []
            | a # as \<Rightarrow> a @ Sprintf f as)
      else c # Sprintf (d # f) args)"

definition SetupSuccessMessage :: string where
  "SetupSuccessMessage =
     nl @ ''Migration setup has been started successfully.'' @ nl
     @ nl
     @ ''To monitor the migration, run the following command:'' @ nl
     @ tab @ ''kubectl logs -f -l %s -n %s'' @ nl
     @ nl
     @ ''The setup will take some time to complete, you can check completion status with the following command:'' @ nl
     @ tab @ ''kubectl get job %s -n %s'' @ nl
     @ nl
     @ ''When setup is complete, a new instance has been created and replication of data has started.'' @ nl
     @ ''You can check the replication progress in the Google Cloud Console:'' @ nl
     @ tab @ ''%s'' @ nl
     @ nl
     @ ''When the migration has Status Running and is in the CDC or Ready to Promote phase,'' @ nl
     @ ''you can proceed with the next step of the migration:'' @ nl
     @ tab @ ''nais postgres migrate promote %s %s %s'' @ nl
     @ nl
     @ ''Be aware that during promotion (the next step), your instance will be unavailable for some time.'' @ nl"

text \<open>
  The types \<open>Migrator\<close> and \<open>Config\<close> of package migrate are declared outside the files at
  hand. \<open>Setup\<close> reads the application name, the namespace and the instance name of the source
  and of the target; the namespace field is called \<open>AppNamespace\<close> here, since \<open>Namespace\<close> is
  the field of the debug configuration.
\<close>

record Instance =
  InstanceName :: string

record MigConfig =
  AppName :: string
  AppNamespace :: string
  Source :: Instance
  Target :: Instance

datatype role = TargetInstance | SourceInstance

text \<open>
  What \<open>Setup\<close> does, in order: cluster requests through the client (the listing of ConfigMaps
  with its namespace, label key and label value; the resolution of an instance; the lookup of
  the project id), text written to standard output, the confirmation prompt, and the calls on
  the pterm logger, spinner and multi printer, with the sleeps of the progress task in seconds.
\<close>

datatype mevent =
    ConfigMapList string string string
  | ResolveCall role
  | LookupCall
  | Print string
  | ConfirmPrompt
  | LogInfo string
  | LogWarn string
  | LogError string
  | SpinnerStart string
  | MultiStart
  | ProgressSleep nat
  | SpinnerUpdateText string
  | SpinnerSuccess string
  | MultiStop

text \<open>
  The collaborators of \<open>Setup\<close> that are not in the files at hand are parameters. The cluster
  has a state of type \<open>'c\<close>; each operation that is handed the client takes the state and
  returns the state it leaves. \<open>client_List\<close> answers with the names of the ConfigMaps found and
  the error; \<open>Resolve\<close> answers with the receiver as the call leaves it and the error;
  \<open>LookupGcpProjectId\<close> with the project id and the error. \<open>confirmContinue\<close> is the result of the
  confirmation prompt, \<open>spinner_Start\<close> and \<open>multi_Start\<close> are the errors of starting the spinner
  and the multi printer, and \<open>delay_draw i\<close> and \<open>severity_draw i\<close> are the raw random numbers
  behind the \<open>i\<close>-th call of \<open>rand.IntnRange\<close> in the progress task and in the logging loop.
\<close>

record 'c world =
  client_List :: "'c \<Rightarrow> string \<Rightarrow> string \<Rightarrow> string \<Rightarrow> (string list \<times> error option) \<times> 'c"
  Resolve :: "'c \<Rightarrow> Instance \<Rightarrow> string \<Rightarrow> string \<Rightarrow> (Instance \<times> error option) \<times> 'c"
  LookupGcpProjectId :: "'c \<Rightarrow> MigConfig \<Rightarrow> (string \<times> error option) \<times> 'c"
  Instance_String :: "Instance \<Rightarrow> string"
  printConfig :: "MigConfig \<Rightarrow> string"
  confirmContinue :: "error option"
  kubectlLabelSelector :: "MigConfig \<Rightarrow> string \<Rightarrow> string"
  CommandSetup :: string
  spinner_Start :: "error option"
  multi_Start :: "error option"
  delay_draw :: "nat \<Rightarrow> nat"
  severity_draw :: "nat \<Rightarrow> nat"

text \<open>The state of a run: the configuration of the migrator, the cluster, and what was done.\<close>

record 'c mstate =
  mcfg :: MigConfig
  cluster :: 'c
  log :: "mevent list"

text \<open>\<open>rand.IntnRange(min, max)\<close>, a number from \<open>min\<close> up to but excluding \<open>max\<close>.\<close>

definition IntnRange :: "nat \<Rightarrow> nat \<Rightarrow> nat \<Rightarrow> nat" where
  "IntnRange lo hi r = lo + r mod (hi - lo)"

text \<open>
  The two loops of \<open>doSpinner\<close>, from iteration \<open>i\<close> on. The progress task sleeps and sends a
  line over the unbuffered channel; the main flow receives it, logs the previous line at the
  drawn severity and shows the new one. Each send is received before the next is made, so the
  run is the sequence: sleep, log, update.
\<close>

function spinnerLoop :: "'c world \<Rightarrow> nat \<Rightarrow> string \<Rightarrow> mevent list \<Rightarrow> mevent list" where
  "spinnerLoop w i prevLog tr =
    (if i < 50 then
       (let delay = IntnRange 5 10 (delay_draw w i);
            logMsg = ''Migration setup is still running, waited '' @ itoa delay @ '' seconds'';
            sev = IntnRange 1 3 (severity_draw w i);
            logged = (if sev = 1 then LogWarn prevLog
                      else if sev = 2 then LogError prevLog
                      else LogInfo prevLog)
        in spinnerLoop w (i + 1) logMsg
             (tr @ [ProgressSleep delay, logged, SpinnerUpdateText logMsg]))
     else tr)"
  by pat_completeness auto
termination
  by (relation "measure (\<lambda>(w, i, prevLog, tr). 50 - i)") auto

declare spinnerLoop.simps [simp del]

definition doSpinner :: "'c world \<Rightarrow> mevent list \<Rightarrow> error option \<times> mevent list" where
  "doSpinner w tr =
    (let tr1 = tr @ [LogInfo ''Migration setup has started'', SpinnerStart ''Setting up migration'']
     in case spinner_Start w of
          Some err \<Rightarrow> (Some (Wrapf ''failed to start spinner: '' err), tr1)
        | None \<Rightarrow>
            (case multi_Start w of
               Some err \<Rightarrow> (Some (Wrapf ''failed to start multi printer: '' err), tr1 @ [MultiStart])
             | None \<Rightarrow>
                 (None,
                  spinnerLoop w 0 [] (tr1 @ [MultiStart])
                    @ [SpinnerSuccess ''Migration setup complete'', MultiStop])))"

text \<open>The end of \<open>Setup\<close>, after the confirmation: the progress display and the message.\<close>

definition setupReport :: "'c world \<Rightarrow> bool \<Rightarrow> string \<Rightarrow> 'c mstate \<Rightarrow> error option \<times> 'c mstate" where
  "setupReport w wait gcpProjectId st =
    (let (ptermFailed, tr1) =
           (if wait
            then (case doSpinner w (log st) of
                    (Some err, tr) \<Rightarrow>
                      (True, tr @ [Print (''Failed to start spinner: '' @ Error err @ nl)])
                  | (None, tr) \<Rightarrow> (False, tr))
            else (False, log st))
     in if \<not> wait \<or> ptermFailed
        then
          (let cloudConsoleUrl =
                 Sprintf ''https://console.cloud.google.com/dbmigration/migrations/locations/europe-north1/instances/%s-%s?project=%s''
                   [InstanceName (Source (mcfg st)), InstanceName (Target (mcfg st)), gcpProjectId];
               label = kubectlLabelSelector w (mcfg st) (CommandSetup w)
           in (None,
               st\<lparr>log := tr1 @
                 [Print (Sprintf SetupSuccessMessage
                    [label, AppNamespace (mcfg st), ''jobName'', AppNamespace (mcfg st),
                     cloudConsoleUrl, AppName (mcfg st), AppNamespace (mcfg st),
                     InstanceName (Target (mcfg st))])]\<rparr>))
        else (None, st\<lparr>log := tr1\<rparr>))"

text \<open>The middle of \<open>Setup\<close>, after both instances are resolved: validation, lookup, prompt.\<close>

definition setupValidate :: "'c world \<Rightarrow> bool \<Rightarrow> 'c mstate \<Rightarrow> error option \<times> 'c mstate" where
  "setupValidate w wait st =
    (let sourceInstanceName = InstanceName (Source (mcfg st))
     in if sourceInstanceName = [] then (Some (Errorf ''source instance name is empty''), st)
        else
          (let targetInstanceName = InstanceName (Target (mcfg st))
           in if targetInstanceName = []
              then (Some (Errorf ''target instance name is required''), st)
              else if sourceInstanceName = targetInstanceName
              then (Some (Errorf ''source and target instance names cannot be the same''), st)
              else
                (case LookupGcpProjectId w (cluster st) (mcfg st) of
                   ((gcpProjectId, err), c) \<Rightarrow>
                     (let st1 = st\<lparr>cluster := c,
                                    log := log st @ [Print (''Looking up GCP project ID'' @ nl),
                                                     LookupCall]\<rparr>
                      in case err of
                           Some e \<Rightarrow> (Some (Wrapf ''failed to lookup GCP project ID: '' e), st1)
                         | None \<Rightarrow>
                             (let st2 = st1\<lparr>log := log st1 @
                                    [Print (printConfig w (mcfg st1)),
                                     Print (nl @ ''This will create a new database instance and start replication of data from the source instance.'' @ nl),
                                     ConfirmPrompt]\<rparr>
                              in case confirmContinue w of
                                   Some e \<Rightarrow> (Some e, st2)
                                 | None \<Rightarrow> setupReport w wait gcpProjectId st2)))))"

definition Setup :: "'c world \<Rightarrow> bool \<Rightarrow> 'c mstate \<Rightarrow> error option \<times> 'c mstate" where
  "Setup w wait st =
    (case client_List w (cluster st) (AppNamespace (mcfg st)) ''migrator.nais.io/app-name''
            (AppName (mcfg st)) of
       ((items, err), c1) \<Rightarrow>
         (let st1 = st\<lparr>cluster := c1,
                        log := log st @ [ConfigMapList (AppNamespace (mcfg st))
                                           ''migrator.nais.io/app-name'' (AppName (mcfg st))]\<rparr>
          in case err of
               Some e \<Rightarrow> (Some e, st1)
             | None \<Rightarrow>
                 if length items > 0
                 then (Some (Errorf ''migration config already exists for this application''), st1)
                 else
                   (case Resolve w c1 (Target (mcfg st1)) (AppName (mcfg st1)) (AppNamespace (mcfg st1)) of
                      ((tgt, err), c2) \<Rightarrow>
                        (let st2 = st1\<lparr>mcfg := (mcfg st1)\<lparr>Target := tgt\<rparr>, cluster := c2,
                                       log := log st1 @ [Print (''Resolving target instance config'' @ nl),
                                                         ResolveCall TargetInstance]\<rparr>
                         in case err of
                              Some e \<Rightarrow> (Some e, st2)
                            | None \<Rightarrow>
                                (case Resolve w c2 (Source (mcfg st2)) (AppName (mcfg st2))
                                        (AppNamespace (mcfg st2)) of
                                   ((src, err), c3) \<Rightarrow>
                                     (let st3 = st2\<lparr>mcfg := (mcfg st2)\<lparr>Source := src\<rparr>, cluster := c3,
                                                    log := log st2 @
                                                      [Print (''Resolved target:'' @ nl
                                                              @ Instance_String w (Target (mcfg st2)) @ nl),
                                                       Print (''Resolving source instance config'' @ nl),
                                                       ResolveCall SourceInstance]\<rparr>
                                      in case err of
                                           Some e \<Rightarrow> (Some e, st3)
                                         | None \<Rightarrow>
                                             setupValidate w wait
                                               (st3\<lparr>log := log st3 @
                                                  [Print (''Resolved source:'' @ nl
                                                          @ Instance_String w (Source (mcfg st3)) @ nl)]\<rparr>)))))))"

section \<open>Observations on a run\<close>

text \<open>The argument vectors of the child processes started, in order.\<close>

fun launched :: "event list \<Rightarrow> string list list" where
  "launched [] = []"
| "launched (CmdStart a # es) = a # launched es"
| "launched (e # es) = launched es"

text \<open>The option lists of the interactive selections shown, in order.\<close>

fun prompted :: "event list \<Rightarrow> string list list" where
  "prompted [] = []"
| "prompted (Select a # es) = a # prompted es"
| "prompted (e # es) = prompted es"

text \<open>The line that iteration \<open>i\<close> of the polling loop prints, and the events of its rounds.\<close>

definition attemptText :: "nat \<Rightarrow> string" where
  "attemptText i = ''Attempt '' @ itoa (i + 1) @ ''/'' @ itoa maxRetries
                   @ '': Time remaining: '' @ itoa ((maxRetries - i) * pollInterval)
                   @ '' seconds'' @ nl"

definition pollRound :: "Config \<Rightarrow> string \<Rightarrow> nat \<Rightarrow> event list" where
  "pollRound cfg pN i = [Info (attemptText i), PodsGet (Namespace cfg) pN, Sleep pollInterval]"

definition pollRounds :: "Config \<Rightarrow> string \<Rightarrow> nat \<Rightarrow> nat \<Rightarrow> event list" where
  "pollRounds cfg pN i m = concat (map (pollRound cfg pN) [i..<m])"

text \<open>
  What \<open>Setup\<close> has done when both instances are resolved, and what it does from there up to
  and including the confirmation prompt.
\<close>

definition resolvedEvents :: "'c world \<Rightarrow> MigConfig \<Rightarrow> Instance \<Rightarrow> Instance \<Rightarrow> mevent list" where
  "resolvedEvents w cf tgt src =
     [ConfigMapList (AppNamespace cf) ''migrator.nais.io/app-name'' (AppName cf),
      Print (''Resolving target instance config'' @ nl),
      ResolveCall TargetInstance,
      Print (''Resolved target:'' @ nl @ Instance_String w tgt @ nl),
      Print (''Resolving source instance config'' @ nl),
      ResolveCall SourceInstance,
      Print (''Resolved source:'' @ nl @ Instance_String w src @ nl)]"

definition confirmedEvents :: "'c world \<Rightarrow> MigConfig \<Rightarrow> mevent list" where
  "confirmedEvents w cf =
     [Print (''Looking up GCP project ID'' @ nl),
      LookupCall,
      Print (printConfig w cf),
      Print (nl @ ''This will create a new database instance and start replication of data from the source instance.'' @ nl),
      ConfirmPrompt]"

text \<open>The number of progress lines shown, the instances resolved, and the texts printed.\<close>

fun updates :: "mevent list \<Rightarrow> nat" where
  "updates [] = 0"
| "updates (SpinnerUpdateText s # es) = Suc (updates es)"
| "updates (e # es) = updates es"

fun resolveCalls :: "mevent list \<Rightarrow> role list" where
  "resolveCalls [] = []"
| "resolveCalls (ResolveCall r # es) = r # resolveCalls es"
| "resolveCalls (e # es) = resolveCalls es"

fun printed :: "mevent list \<Rightarrow> string list" where
  "printed [] = []"
| "printed (Print s # es) = s # printed es"
| "printed (e # es) = printed es"

text \<open>The lines of a text, as \<open>strings.Split\<close> at the newline gives them.\<close>

fun splitLines :: "string \<Rightarrow> string list" where
  "splitLines [] = [[]]"
| "splitLines (c # s) =
     (if c = CHR 0x0A then [] # splitLines s
      else (case splitLines s of [] \<Rightarrow> [[c]] | l # ls \<Rightarrow> (c # l) # ls))"

section \<open>Example runs\<close>

definition webPod :: Pod where
  "webPod = \<lparr>pod_Name = ''web-1'', EphemeralContainers = [], ContainerStatuses = []\<rparr>"

definition webPod2 :: Pod where
  "webPod2 = \<lparr>pod_Name = ''web-2'', EphemeralContainers = [], ContainerStatuses = []\<rparr>"

definition copyPending :: Pod where
  "copyPending = \<lparr>pod_Name = ''web-1-nais-debugger'', EphemeralContainers = [],
                  ContainerStatuses = [\<lparr>cs_Name = ''debugger'', cs_Running = False\<rparr>]\<rparr>"

definition copyRunning :: Pod where
  "copyRunning = \<lparr>pod_Name = ''web-1-nais-debugger'', EphemeralContainers = [],
                  ContainerStatuses = [\<lparr>cs_Name = ''debugger'', cs_Running = True\<rparr>]\<rparr>"

definition webConfig :: Config where
  "webConfig = \<lparr>Namespace = ''team'', Context = [], WorkloadName = ''web'',
                 DebugImage = ''img'', CopyPod = True, ByPod = False\<rparr>"

text \<open>A cluster with one pod of the workload, in which every lookup of a single pod is refused.\<close>

definition kubeForbidden :: kube where
  "kubeForbidden =
     \<lparr>Pods_List = (\<lambda>n ns sel. (Some [webPod], None)),
      Pods_Get = (\<lambda>n ns name. Inl (ExtError False ''forbidden'')),
      Select_Show = (\<lambda>n opts. Inr ''web-1''),
      Cmd_Start = (\<lambda>n argv. None),
      Cmd_Wait = (\<lambda>n argv. None)\<rparr>"

text \<open>
  A cluster whose answer to the primary selector is an empty list with an error, and whose
  answer to every other selector is one pod.
\<close>

definition kubePrimaryFails :: kube where
  "kubePrimaryFails =
     \<lparr>Pods_List = (\<lambda>n ns sel. if sel = ''app.kubernetes.io/name=web''
                                then (Some [], Some (ExtError False ''connection refused''))
                                else (Some [webPod], None)),
      Pods_Get = (\<lambda>n ns name. Inr webPod),
      Select_Show = (\<lambda>n opts. Inr ''web-1''),
      Cmd_Start = (\<lambda>n argv. None),
      Cmd_Wait = (\<lambda>n argv. None)\<rparr>"

text \<open>A cluster without pods.\<close>

definition kubeEmpty :: kube where
  "kubeEmpty =
     \<lparr>Pods_List = (\<lambda>n ns sel. (Some [], None)),
      Pods_Get = (\<lambda>n ns name. Inl (ExtError True ''not found'')),
      Select_Show = (\<lambda>n opts. Inr ''web-1''),
      Cmd_Start = (\<lambda>n argv. None),
      Cmd_Wait = (\<lambda>n argv. None)\<rparr>"

text \<open>A cluster with two pods of the workload, in which the user selects the second.\<close>

definition kubeTwoPods :: kube where
  "kubeTwoPods =
     \<lparr>Pods_List = (\<lambda>n ns sel. (Some [webPod, webPod2], None)),
      Pods_Get = (\<lambda>n ns name. Inr webPod),
      Select_Show = (\<lambda>n opts. Inr ''web-2''),
      Cmd_Start = (\<lambda>n argv. None),
      Cmd_Wait = (\<lambda>n argv. None)\<rparr>"

text \<open>
  The copy of the pod exists. Its debugger container is not running at the first three
  lookups (the existence check and two polls) and is running from then on.
\<close>

definition kubeRunningAtThird :: kube where
  "kubeRunningAtThird =
     \<lparr>Pods_List = (\<lambda>n ns sel. (Some [webPod], None)),
      Pods_Get = (\<lambda>n ns name. if n < 3 then Inr copyPending else Inr copyRunning),
      Select_Show = (\<lambda>n opts. Inr ''web-1''),
      Cmd_Start = (\<lambda>n argv. None),
      Cmd_Wait = (\<lambda>n argv. None)\<rparr>"

text \<open>The copy of the pod exists and its debugger container never runs.\<close>

definition kubeNeverRunning :: kube where
  "kubeNeverRunning =
     \<lparr>Pods_List = (\<lambda>n ns sel. (Some [webPod], None)),
      Pods_Get = (\<lambda>n ns name. Inr copyPending),
      Select_Show = (\<lambda>n opts. Inr ''web-1''),
      Cmd_Start = (\<lambda>n argv. None),
      Cmd_Wait = (\<lambda>n argv. None)\<rparr>"

text \<open>
  A world for \<open>Setup\<close>. The state of the cluster is the list of the marker ConfigMaps of the
  application; every operation leaves it as it is. Resolution gives an instance without a name
  the name of the application.
\<close>

definition exampleWorld :: "string list world" where
  "exampleWorld =
     \<lparr>client_List = (\<lambda>c ns key val. ((c, None), c)),
      Resolve = (\<lambda>c i app ns.
                   ((if InstanceName i = [] then \<lparr>InstanceName = app\<rparr> else i, None), c)),
      LookupGcpProjectId = (\<lambda>c cf. ((''team-prod-1234'', None), c)),
      Instance_String = (\<lambda>i. ''instance '' @ InstanceName i),
      printConfig = (\<lambda>cf. ''app '' @ AppName cf @ nl),
      confirmContinue = None,
      kubectlLabelSelector = (\<lambda>cf cmd. ''migrator.nais.io/command='' @ cmd),
      CommandSetup = ''setup'',
      spinner_Start = None,
      multi_Start = None,
      delay_draw = (\<lambda>i. i),
      severity_draw = (\<lambda>i. i)\<rparr>"

definition exampleState :: "string list mstate" where
  "exampleState =
     \<lparr>mcfg = \<lparr>AppName = ''myapp'', AppNamespace = ''myteam'',
              Source = \<lparr>InstanceName = []\<rparr>, Target = \<lparr>InstanceName = ''myapp-new''\<rparr>\<rparr>,
      cluster = [], log = []\<rparr>"

text \<open>The same state with a marker of the application in the cluster.\<close>

definition markedState :: "string list mstate" where
  "markedState = exampleState\<lparr>cluster := [''migration-myapp'']\<rparr>"

text \<open>The same state with the target instance named as the application is.\<close>

definition sameNameState :: "string list mstate" where
  "sameNameState =
     exampleState\<lparr>mcfg := (mcfg exampleState)\<lparr>Target := \<lparr>InstanceName = ''myapp''\<rparr>\<rparr>\<rparr>"

text \<open>The same world on a terminal where the spinner does not start.\<close>

definition noSpinnerWorld :: "string list world" where
  "noSpinnerWorld = exampleWorld\<lparr>spinner_Start := Some (ExtError False ''no terminal'')\<rparr>"

section \<open>The debug session\<close>

subsection \<open>Observations distribute over a run\<close>

lemma launched_append: "launched (xs @ ys) = launched xs @ launched ys"
  by (induction xs rule: launched.induct) simp_all

lemma prompted_append: "prompted (xs @ ys) = prompted xs @ prompted ys"
  by (induction xs rule: prompted.induct) simp_all

lemma pollRounds_step:
  "i < m \<Longrightarrow> pollRounds cfg pN i m = pollRound cfg pN i @ pollRounds cfg pN (Suc i) m"
  by (simp add: pollRounds_def upt_conv_Cons)

lemma pollRounds_empty: "m \<le> i \<Longrightarrow> pollRounds cfg pN i m = []"
  by (simp add: pollRounds_def)

lemma launched_concat_rounds: "launched (concat (map (pollRound cfg pN) xs)) = []"
  by (induction xs) (simp_all add: launched_append pollRound_def)

lemma launched_pollRounds: "launched (pollRounds cfg pN i m) = []"
  by (simp add: pollRounds_def launched_concat_rounds)

lemma pollRounds_six:
  "pollRounds cfg pN 0 maxRetries =
     [Info (attemptText 0), PodsGet (Namespace cfg) pN, Sleep 5,
      Info (attemptText 1), PodsGet (Namespace cfg) pN, Sleep 5,
      Info (attemptText 2), PodsGet (Namespace cfg) pN, Sleep 5,
      Info (attemptText 3), PodsGet (Namespace cfg) pN, Sleep 5,
      Info (attemptText 4), PodsGet (Namespace cfg) pN, Sleep 5,
      Info (attemptText 5), PodsGet (Namespace cfg) pN, Sleep 5]"
proof -
  have "[0..<maxRetries] = [0, 1, 2, 3, 4, 5]"
    unfolding maxRetries_def by (simp add: upt_rec)
  then show ?thesis
    by (simp add: pollRounds_def pollRound_def pollInterval_def)
qed

subsection \<open>The polling loop\<close>

text \<open>
  The loop at iteration \<open>i\<close>, when the lookups so far number \<open>c + i\<close>: if every lookup from
  here to the last iteration finds the container not running, the loop runs all its rounds and
  ends in the timeout.
\<close>

lemma pollLoop_timeout:
  assumes "\<forall>j. i \<le> j \<and> j < maxRetries \<longrightarrow>
             (\<exists>p. Pods_Get k (c + j) (Namespace cfg) pN = Inr p \<and> \<not> debuggerRunning p)"
      and "count_list tr (PodsGet (Namespace cfg) pN) = c + i"
  shows "pollLoop k cfg pN i tr =
           (Some (Errorf ''container did not start within the expected time''),
            tr @ pollRounds cfg pN i maxRetries)"
  using assms
proof (induction "maxRetries - i" arbitrary: i tr)
  case 0
  then show ?case by (simp add: pollLoop.simps [of k cfg pN i tr] pollRounds_empty)
next
  case (Suc d)
  then have lt: "i < maxRetries" by simp
  with Suc.prems(1) obtain p where
    p: "Pods_Get k (c + i) (Namespace cfg) pN = Inr p" "\<not> debuggerRunning p" by blast
  have d: "d = maxRetries - Suc i" using Suc.hyps(2) by simp
  have next_round: "pollLoop k cfg pN (Suc i) (tr @ pollRound cfg pN i) =
           (Some (Errorf ''container did not start within the expected time''),
            (tr @ pollRound cfg pN i) @ pollRounds cfg pN (Suc i) maxRetries)"
    using Suc.prems by (intro Suc.hyps(1) d) (simp_all add: pollRound_def)
  show ?case
    using lt p next_round Suc.prems(2)
    by (simp add: pollLoop.simps [of k cfg pN i tr] pollRounds_step pollRound_def attemptText_def)
qed

text \<open>If the lookup of iteration \<open>m\<close> is the first to find it running, the loop attaches there.\<close>

lemma pollLoop_attach:
  assumes "\<forall>j. i \<le> j \<and> j < m \<longrightarrow>
             (\<exists>p. Pods_Get k (c + j) (Namespace cfg) pN = Inr p \<and> \<not> debuggerRunning p)"
      and "Pods_Get k (c + m) (Namespace cfg) pN = Inr q" and "debuggerRunning q"
      and "i \<le> m" and "m < maxRetries"
      and "count_list tr (PodsGet (Namespace cfg) pN) = c + i"
  shows "pollLoop k cfg pN i tr =
           attachToExistingDebugContainer k cfg pN
             (tr @ pollRounds cfg pN i m @
              [Info (attemptText m), PodsGet (Namespace cfg) pN,
               Success (''Container is running. Attaching...'' @ nl)])"
  using assms
proof (induction "m - i" arbitrary: i tr)
  case 0
  then have "i = m" by simp
  with 0 show ?case
    by (simp add: pollLoop.simps [of k cfg pN m tr] pollRounds_empty attemptText_def)
next
  case (Suc d)
  then have lt: "i < m" "i < maxRetries" by simp_all
  with Suc.prems(1) obtain p where
    p: "Pods_Get k (c + i) (Namespace cfg) pN = Inr p" "\<not> debuggerRunning p" by blast
  have d: "d = m - Suc i" using Suc.hyps(2) by simp
  have next_round: "pollLoop k cfg pN (Suc i) (tr @ pollRound cfg pN i) =
           attachToExistingDebugContainer k cfg pN
             ((tr @ pollRound cfg pN i) @ pollRounds cfg pN (Suc i) m @
              [Info (attemptText m), PodsGet (Namespace cfg) pN,
               Success (''Container is running. Attaching...'' @ nl)])"
    using Suc.prems lt by (intro Suc.hyps(1) d) (simp_all add: pollRound_def)
  show ?case
    using lt p next_round Suc.prems(6)
    by (simp add: pollLoop.simps [of k cfg pN i tr] pollRounds_step pollRound_def attemptText_def)
qed

lemma launched_attach:
  "launched (snd (attachToExistingDebugContainer k cfg pN tr)) = launched tr @ [attachArgs cfg pN]"
  by (simp add: attachToExistingDebugContainer_def Let_def launched_append split: option.splits)

lemma attach_not_timeout:
  "fst (attachToExistingDebugContainer k cfg pN tr) \<noteq>
     Some (Errorf ''container did not start within the expected time'')"
  by (simp add: attachToExistingDebugContainer_def Let_def split: option.splits)

subsection \<open>No step of \<open>debugPod\<close> shows a selection\<close>

lemma prompted_attach:
  "prompted (snd (attachToExistingDebugContainer k cfg pN tr)) = prompted tr"
  by (simp add: attachToExistingDebugContainer_def Let_def prompted_append split: option.splits)

lemma prompted_create:
  "prompted (snd (createDebugPod k cfg podName tr)) = prompted tr"
  by (simp add: createDebugPod_def Let_def prompted_append split: option.splits)

lemma prompted_pollLoop:
  "prompted (snd (pollLoop k cfg pN i tr)) = prompted tr"
proof (induction "maxRetries - i" arbitrary: i tr)
  case 0
  then show ?case by (simp add: pollLoop.simps [of k cfg pN i tr])
next
  case (Suc d)
  then have lt: "i < maxRetries" and d: "d = maxRetries - Suc i" by simp_all
  have ih: "prompted (snd (pollLoop k cfg pN (Suc i) tr')) = prompted tr'" for tr'
    using Suc.hyps(1) [OF d] .
  show ?case
    using lt
    by (simp add: pollLoop.simps [of k cfg pN i tr] Let_def ih prompted_attach prompted_append
             split: sum.splits)
qed

lemma prompted_debugPod:
  "prompted (snd (debugPod k cfg podName tr)) = prompted tr"
  by (simp add: debugPod_def Let_def prompted_pollLoop prompted_create prompted_append
           split: sum.splits)

lemma prompted_debugChosen:
  "prompted (snd (debugChosen k cfg podName tr)) = prompted tr"
  using prompted_debugPod [of k cfg podName tr]
  by (cases "debugPod k cfg podName tr")
     (auto simp: debugChosen_def prompted_append split: option.splits)

subsection \<open>What \<open>Debug\<close> and the lookup do on every input\<close>

text \<open>Whatever \<open>debugPod\<close> returns, the last step of \<open>Debug\<close> returns nil.\<close>

lemma debugChosen_nil: "fst (debugChosen k cfg podName tr) = Return None"
  by (cases "debugPod k cfg podName tr") (simp add: debugChosen_def split: option.splits)

text \<open>A primary list that is not empty is the result, and the fallback selector is not used.\<close>

lemma getPodsForWorkload_primary:
  assumes "Pods_List k (count_list tr (PodsList (Namespace cfg)
                                         (''app.kubernetes.io/name='' @ WorkloadName cfg)))
             (Namespace cfg) (''app.kubernetes.io/name='' @ WorkloadName cfg) = (Some items, None)"
      and "items \<noteq> []"
  shows "getPodsForWorkload k cfg tr =
           (Return (Some items, None),
            tr @ [Info (''Fetching workload...'' @ nl),
                  PodsList (Namespace cfg) (''app.kubernetes.io/name='' @ WorkloadName cfg)])"
  using assms by (simp add: getPodsForWorkload_def Let_def)

subsection \<open>The claims on the debug session\<close>

text \<open>
  Claim C1: if \<open>debugPod\<close> fails with a fatal error, \<open>Debug\<close> returns that error. The code does
  not: \<open>Debug\<close> prints the error of \<open>debugPod\<close> and returns nil, while the failure of the
  selection, a few lines above, is printed and returned. With one pod of the workload and a
  lookup of the copy that is refused (not NotFound), \<open>debugPod\<close> returns its error and \<open>Debug\<close>
  returns nil.
\<close>

theorem Debug_discards_debugPod_error:
  "debugPod kubeForbidden webConfig ''web-1'' [] =
     (Some (Errorf ''failed to check for existing debug pod copy web-1-nais-debugger: forbidden''),
      [PodsGet ''team'' ''web-1-nais-debugger''])
   \<and> Debug kubeForbidden webConfig [] =
     (Return None,
      [Info (''Fetching workload...'' @ nl),
       PodsList ''team'' ''app.kubernetes.io/name=web'',
       PodsGet ''team'' ''web-1-nais-debugger'',
       ErrorMsg (''Failed to debug pod web-1: failed to check for existing debug pod copy web-1-nais-debugger: forbidden'' @ nl)])"
  by code_simp

text \<open>
  Claim C3: in copy-pod mode, when the copy of the pod exists (the first lookup of it succeeds)
  and every poll finds the copy: if the poll of iteration \<open>m\<close>, one of the six, is the first to
  find the debugger container running, \<open>debugPod\<close> attaches there, exactly one process is
  started, the attach command, and the result is not the timeout; if none of the six polls
  finds it running, \<open>debugPod\<close> returns the timeout after exactly six polls, each followed by a
  sleep of five seconds.
\<close>

theorem debugPod_attach_retry:
  assumes "CopyPod cfg"
    and "pN = debuggerContainerName podName"
    and "n = count_list tr (PodsGet (Namespace cfg) pN)"
    and "Pods_Get k n (Namespace cfg) pN = Inr pod0"
    and "tr0 = tr @ [PodsGet (Namespace cfg) pN,
                     Info (pN @ '' already exists, trying to attach...'' @ nl)]"
  shows "(m < maxRetries \<and>
          (\<forall>j<m. \<exists>p. Pods_Get k (n + 1 + j) (Namespace cfg) pN = Inr p \<and> \<not> debuggerRunning p) \<and>
          (\<exists>q. Pods_Get k (n + 1 + m) (Namespace cfg) pN = Inr q \<and> debuggerRunning q)
          \<longrightarrow>
            debugPod k cfg podName tr =
              attachToExistingDebugContainer k cfg pN
                (tr0 @ pollRounds cfg pN 0 m
                     @ [Info (attemptText m), PodsGet (Namespace cfg) pN,
                        Success (''Container is running. Attaching...'' @ nl)]) \<and>
            launched (snd (debugPod k cfg podName tr)) = launched tr @ [attachArgs cfg pN] \<and>
            fst (debugPod k cfg podName tr) \<noteq>
              Some (Errorf ''container did not start within the expected time''))
       \<and>
         ((\<forall>j<maxRetries. \<exists>p. Pods_Get k (n + 1 + j) (Namespace cfg) pN = Inr p
                                \<and> \<not> debuggerRunning p)
          \<longrightarrow>
            debugPod k cfg podName tr =
              (Some (Errorf ''container did not start within the expected time''),
               tr0 @ [Info (attemptText 0), PodsGet (Namespace cfg) pN, Sleep 5,
                      Info (attemptText 1), PodsGet (Namespace cfg) pN, Sleep 5,
                      Info (attemptText 2), PodsGet (Namespace cfg) pN, Sleep 5,
                      Info (attemptText 3), PodsGet (Namespace cfg) pN, Sleep 5,
                      Info (attemptText 4), PodsGet (Namespace cfg) pN, Sleep 5,
                      Info (attemptText 5), PodsGet (Namespace cfg) pN, Sleep 5]))"
proof -
  define c where "c = n + 1"
  have cnt: "count_list tr0 (PodsGet (Namespace cfg) pN) = c + 0"
    using assms(3,5) by (simp add: c_def)
  have start: "debugPod k cfg podName tr = pollLoop k cfg pN 0 tr0"
    using assms by (simp add: debugPod_def Let_def)
  have a: "debugPod k cfg podName tr =
              attachToExistingDebugContainer k cfg pN
                (tr0 @ pollRounds cfg pN 0 m
                     @ [Info (attemptText m), PodsGet (Namespace cfg) pN,
                        Success (''Container is running. Attaching...'' @ nl)])"
    if "m < maxRetries"
      and "\<forall>j<m. \<exists>p. Pods_Get k (c + j) (Namespace cfg) pN = Inr p \<and> \<not> debuggerRunning p"
      and "Pods_Get k (c + m) (Namespace cfg) pN = Inr q" and "debuggerRunning q" for q
    unfolding start using that cnt by (intro pollLoop_attach [where c = c and q = q]) simp_all
  have b: "debugPod k cfg podName tr =
              (Some (Errorf ''container did not start within the expected time''),
               tr0 @ pollRounds cfg pN 0 maxRetries)"
    if "\<forall>j<maxRetries. \<exists>p. Pods_Get k (c + j) (Namespace cfg) pN = Inr p \<and> \<not> debuggerRunning p"
    unfolding start using that cnt by (intro pollLoop_timeout [where c = c]) simp_all
  have tr0_launched: "launched tr0 = launched tr"
    using assms(5) by (simp add: launched_append)
  have found: "debugPod k cfg podName tr =
              attachToExistingDebugContainer k cfg pN
                (tr0 @ pollRounds cfg pN 0 m
                     @ [Info (attemptText m), PodsGet (Namespace cfg) pN,
                        Success (''Container is running. Attaching...'' @ nl)]) \<and>
            launched (snd (debugPod k cfg podName tr)) = launched tr @ [attachArgs cfg pN] \<and>
            fst (debugPod k cfg podName tr) \<noteq>
              Some (Errorf ''container did not start within the expected time'')"
    if h: "m < maxRetries \<and>
          (\<forall>j<m. \<exists>p. Pods_Get k (n + 1 + j) (Namespace cfg) pN = Inr p \<and> \<not> debuggerRunning p) \<and>
          (\<exists>q. Pods_Get k (n + 1 + m) (Namespace cfg) pN = Inr q \<and> debuggerRunning q)"
  proof -
    from h obtain q where
      q: "Pods_Get k (n + 1 + m) (Namespace cfg) pN = Inr q" "debuggerRunning q" by blast
    have eq: "debugPod k cfg podName tr =
              attachToExistingDebugContainer k cfg pN
                (tr0 @ pollRounds cfg pN 0 m
                     @ [Info (attemptText m), PodsGet (Namespace cfg) pN,
                        Success (''Container is running. Attaching...'' @ nl)])"
      using a [of q] h q unfolding c_def by blast
    show ?thesis
      unfolding eq
      by (simp add: launched_attach launched_append launched_pollRounds tr0_launched
                    attach_not_timeout del: append_assoc)
  qed
  have never: "debugPod k cfg podName tr =
              (Some (Errorf ''container did not start within the expected time''),
               tr0 @ [Info (attemptText 0), PodsGet (Namespace cfg) pN, Sleep 5,
                      Info (attemptText 1), PodsGet (Namespace cfg) pN, Sleep 5,
                      Info (attemptText 2), PodsGet (Namespace cfg) pN, Sleep 5,
                      Info (attemptText 3), PodsGet (Namespace cfg) pN, Sleep 5,
                      Info (attemptText 4), PodsGet (Namespace cfg) pN, Sleep 5,
                      Info (attemptText 5), PodsGet (Namespace cfg) pN, Sleep 5])"
    if h: "\<forall>j<maxRetries. \<exists>p. Pods_Get k (n + 1 + j) (Namespace cfg) pN = Inr p
                                \<and> \<not> debuggerRunning p"
    using b h unfolding c_def pollRounds_six by blast
  show ?thesis
    using found never by blast
qed

theorem debugPod_attach_retry_witness:
  "debugPod kubeRunningAtThird webConfig ''web-1'' [] =
     (None,
      [PodsGet ''team'' ''web-1-nais-debugger'',
       Info (''web-1-nais-debugger already exists, trying to attach...'' @ nl),
       Info (''Attempt 1/6: Time remaining: 30 seconds'' @ nl),
       PodsGet ''team'' ''web-1-nais-debugger'', Sleep 5,
       Info (''Attempt 2/6: Time remaining: 25 seconds'' @ nl),
       PodsGet ''team'' ''web-1-nais-debugger'', Sleep 5,
       Info (''Attempt 3/6: Time remaining: 20 seconds'' @ nl),
       PodsGet ''team'' ''web-1-nais-debugger'',
       Success (''Container is running. Attaching...'' @ nl),
       CmdStart [''kubectl'', ''attach'', ''-n'', ''team'', ''pod/web-1-nais-debugger'', ''-c'',
                 ''debugger'', ''-i'', ''-t''],
       Success (''Attached to pod web-1-nais-debugger'' @ nl),
       CmdWait [''kubectl'', ''attach'', ''-n'', ''team'', ''pod/web-1-nais-debugger'', ''-c'',
                ''debugger'', ''-i'', ''-t'']])
   \<and> launched (snd (debugPod kubeRunningAtThird webConfig ''web-1'' [])) =
       [[''kubectl'', ''attach'', ''-n'', ''team'', ''pod/web-1-nais-debugger'', ''-c'',
         ''debugger'', ''-i'', ''-t'']]
   \<and> debugPod kubeNeverRunning webConfig ''web-1'' [] =
       (Some (Errorf ''container did not start within the expected time''),
        [PodsGet ''team'' ''web-1-nais-debugger'',
         Info (''web-1-nais-debugger already exists, trying to attach...'' @ nl),
         Info (''Attempt 1/6: Time remaining: 30 seconds'' @ nl),
         PodsGet ''team'' ''web-1-nais-debugger'', Sleep 5,
         Info (''Attempt 2/6: Time remaining: 25 seconds'' @ nl),
         PodsGet ''team'' ''web-1-nais-debugger'', Sleep 5,
         Info (''Attempt 3/6: Time remaining: 20 seconds'' @ nl),
         PodsGet ''team'' ''web-1-nais-debugger'', Sleep 5,
         Info (''Attempt 4/6: Time remaining: 15 seconds'' @ nl),
         PodsGet ''team'' ''web-1-nais-debugger'', Sleep 5,
         Info (''Attempt 5/6: Time remaining: 10 seconds'' @ nl),
         PodsGet ''team'' ''web-1-nais-debugger'', Sleep 5,
         Info (''Attempt 6/6: Time remaining: 5 seconds'' @ nl),
         PodsGet ''team'' ''web-1-nais-debugger'', Sleep 5])"
proof -
  have copy: "CopyPod webConfig" by (simp add: webConfig_def)
  have name: "''web-1-nais-debugger'' = debuggerContainerName ''web-1''"
    by (simp add: debuggerContainerName_def debuggerSuffix_def)
  have first: "0 = count_list [] (PodsGet (Namespace webConfig) ''web-1-nais-debugger'')"
    by simp
  have pending: "\<not> debuggerRunning copyPending"
    by (simp add: debuggerRunning_def copyPending_def)
  have running: "debuggerRunning copyRunning"
    by (simp add: debuggerRunning_def copyRunning_def debuggerContainerDefaultName_def)
  have here: "Pods_Get kubeRunningAtThird 0 (Namespace webConfig) ''web-1-nais-debugger''
                = Inr copyPending"
    by (simp add: kubeRunningAtThird_def)
  have here': "Pods_Get kubeNeverRunning 0 (Namespace webConfig) ''web-1-nais-debugger''
                = Inr copyPending"
    by (simp add: kubeNeverRunning_def)
  have polls: "2 < maxRetries \<and>
      (\<forall>j<2. \<exists>p. Pods_Get kubeRunningAtThird (0 + 1 + j) (Namespace webConfig)
                     ''web-1-nais-debugger'' = Inr p \<and> \<not> debuggerRunning p) \<and>
      (\<exists>q. Pods_Get kubeRunningAtThird (0 + 1 + 2) (Namespace webConfig)
               ''web-1-nais-debugger'' = Inr q \<and> debuggerRunning q)"
    using pending running by (simp add: kubeRunningAtThird_def maxRetries_def)
  have never: "\<forall>j<maxRetries. \<exists>p. Pods_Get kubeNeverRunning (0 + 1 + j) (Namespace webConfig)
                     ''web-1-nais-debugger'' = Inr p \<and> \<not> debuggerRunning p"
    using pending by (simp add: kubeNeverRunning_def)
  have attached:
    "debugPod kubeRunningAtThird webConfig ''web-1'' [] =
       attachToExistingDebugContainer kubeRunningAtThird webConfig ''web-1-nais-debugger''
         (([] @ [PodsGet (Namespace webConfig) ''web-1-nais-debugger'',
                 Info (''web-1-nais-debugger'' @ '' already exists, trying to attach...'' @ nl)])
          @ pollRounds webConfig ''web-1-nais-debugger'' 0 2
          @ [Info (attemptText 2), PodsGet (Namespace webConfig) ''web-1-nais-debugger'',
             Success (''Container is running. Attaching...'' @ nl)])"
    using debugPod_attach_retry [OF copy name first here refl, of 2] polls by blast
  have timed_out:
    "debugPod kubeNeverRunning webConfig ''web-1'' [] =
       (Some (Errorf ''container did not start within the expected time''),
        ([] @ [PodsGet (Namespace webConfig) ''web-1-nais-debugger'',
               Info (''web-1-nais-debugger'' @ '' already exists, trying to attach...'' @ nl)])
        @ [Info (attemptText 0), PodsGet (Namespace webConfig) ''web-1-nais-debugger'', Sleep 5,
           Info (attemptText 1), PodsGet (Namespace webConfig) ''web-1-nais-debugger'', Sleep 5,
           Info (attemptText 2), PodsGet (Namespace webConfig) ''web-1-nais-debugger'', Sleep 5,
           Info (attemptText 3), PodsGet (Namespace webConfig) ''web-1-nais-debugger'', Sleep 5,
           Info (attemptText 4), PodsGet (Namespace webConfig) ''web-1-nais-debugger'', Sleep 5,
           Info (attemptText 5), PodsGet (Namespace webConfig) ''web-1-nais-debugger'', Sleep 5])"
    using debugPod_attach_retry [OF copy name first here' refl, of 0] never by blast
  show ?thesis
    unfolding attached timed_out by code_simp
qed

text \<open>
  Claim C5: a failure of the primary query is returned after a single attempt, without a query
  with the fallback selector. The code does not: it reads the length of the primary list
  before it looks at the error, so a primary query that fails with an empty list is followed
  by the fallback query, whose result replaces the error.
\<close>

theorem getPodsForWorkload_primary_error_lost:
  "getPodsForWorkload kubePrimaryFails webConfig [] =
     (Return (Some [webPod], None),
      [Info (''Fetching workload...'' @ nl),
       PodsList ''team'' ''app.kubernetes.io/name=web'',
       PodsList ''team'' ''app=web''])"
  by code_simp

text \<open>
  Claim C6, as stated: with exactly one candidate the first candidate is taken without a
  selection being shown. With the flag set and one pod, the selection is shown.
\<close>

theorem Debug_prompts_single_candidate:
  "prompted (snd (Debug kubeForbidden (webConfig\<lparr>ByPod := True\<rparr>) [])) = [[''web-1'']]"
  by code_simp

text \<open>
  Claim C6, amended: when the lookup has found at least one pod, the selection is shown
  exactly when \<open>ByPod\<close> is set, whatever the number of candidates, and the pod debugged is then
  the one selected; when \<open>ByPod\<close> is not set, no selection is shown and the first candidate in
  list order is debugged.
\<close>

theorem Debug_pod_choice:
  assumes "getPodsForWorkload k cfg tr = (Return (Some items, None), tr1)" and "items \<noteq> []"
  shows "if ByPod cfg
         then prompted (snd (Debug k cfg tr)) = prompted tr1 @ [map pod_Name items] \<and>
              (\<forall>result. Select_Show k (count_list tr1 (Select (map pod_Name items)))
                           (map pod_Name items) = Inr result
                 \<longrightarrow> Debug k cfg tr =
                       debugChosen k cfg result (tr1 @ [Select (map pod_Name items)]))
         else prompted (snd (Debug k cfg tr)) = prompted tr1 \<and>
              Debug k cfg tr = debugChosen k cfg (pod_Name (hd items)) tr1"
  using assms
  by (simp add: Debug_def Let_def prompted_debugChosen prompted_append hd_map split: sum.splits)

theorem Debug_pod_choice_witness:
  "prompted (snd (Debug kubeTwoPods (webConfig\<lparr>CopyPod := False, ByPod := True\<rparr>) [])) =
     [[''web-1'', ''web-2'']]
   \<and> Debug kubeTwoPods (webConfig\<lparr>CopyPod := False, ByPod := True\<rparr>) [] =
       debugChosen kubeTwoPods (webConfig\<lparr>CopyPod := False, ByPod := True\<rparr>) ''web-2''
         [Info (''Fetching workload...'' @ nl), PodsList ''team'' ''app.kubernetes.io/name=web'',
          Select [''web-1'', ''web-2'']]
   \<and> Debug kubeTwoPods (webConfig\<lparr>CopyPod := False\<rparr>) [] =
       debugChosen kubeTwoPods (webConfig\<lparr>CopyPod := False\<rparr>) ''web-1''
         [Info (''Fetching workload...'' @ nl), PodsList ''team'' ''app.kubernetes.io/name=web'']"
proof -
  have found: "getPodsForWorkload kubeTwoPods (webConfig\<lparr>CopyPod := False, ByPod := True\<rparr>) [] =
      (Return (Some [webPod, webPod2], None),
       [Info (''Fetching workload...'' @ nl), PodsList ''team'' ''app.kubernetes.io/name=web''])"
    by (simp add: getPodsForWorkload_def kubeTwoPods_def webConfig_def Let_def)
  have found': "getPodsForWorkload kubeTwoPods (webConfig\<lparr>CopyPod := False\<rparr>) [] =
      (Return (Some [webPod, webPod2], None),
       [Info (''Fetching workload...'' @ nl), PodsList ''team'' ''app.kubernetes.io/name=web''])"
    by (simp add: getPodsForWorkload_def kubeTwoPods_def webConfig_def Let_def)
  have names: "pod_Name webPod = ''web-1''" "pod_Name webPod2 = ''web-2''"
    by (simp_all add: webPod_def webPod2_def)
  have answer: "Select_Show kubeTwoPods i opts = Inr ''web-2''" for i opts
    by (simp add: kubeTwoPods_def)
  have unset: "\<not> ByPod webConfig"
    by (simp add: webConfig_def)
  have selected: "prompted (snd (Debug kubeTwoPods (webConfig\<lparr>CopyPod := False, ByPod := True\<rparr>) [])) =
     [[''web-1'', ''web-2'']]
   \<and> Debug kubeTwoPods (webConfig\<lparr>CopyPod := False, ByPod := True\<rparr>) [] =
       debugChosen kubeTwoPods (webConfig\<lparr>CopyPod := False, ByPod := True\<rparr>) ''web-2''
         [Info (''Fetching workload...'' @ nl), PodsList ''team'' ''app.kubernetes.io/name=web'',
          Select [''web-1'', ''web-2'']]"
    using Debug_pod_choice [OF found]
    by (simp add: names answer prompted_debugChosen)
  have first: "Debug kubeTwoPods (webConfig\<lparr>CopyPod := False\<rparr>) [] =
       debugChosen kubeTwoPods (webConfig\<lparr>CopyPod := False\<rparr>) ''web-1''
         [Info (''Fetching workload...'' @ nl), PodsList ''team'' ''app.kubernetes.io/name=web'']"
    using Debug_pod_choice [OF found'] unset
    by (simp add: names)
  show ?thesis
    using selected first by blast
qed

text \<open>
  Claim C7: if the primary and the fallback selector both yield an empty list, \<open>Debug\<close> returns
  nil and starts no process.
\<close>

theorem Debug_no_pods:
  assumes "Pods_List k (count_list tr (PodsList (Namespace cfg)
                                         (''app.kubernetes.io/name='' @ WorkloadName cfg)))
             (Namespace cfg) (''app.kubernetes.io/name='' @ WorkloadName cfg) = (Some [], None)"
      and "Pods_List k (count_list tr (PodsList (Namespace cfg) (''app='' @ WorkloadName cfg)))
             (Namespace cfg) (''app='' @ WorkloadName cfg) = (Some [], None)"
  shows "Debug k cfg tr =
           (Return None,
            tr @ [Info (''Fetching workload...'' @ nl),
                  PodsList (Namespace cfg) (''app.kubernetes.io/name='' @ WorkloadName cfg),
                  PodsList (Namespace cfg) (''app='' @ WorkloadName cfg),
                  Info (''No pods found.'' @ nl)])
         \<and> launched (snd (Debug k cfg tr)) = launched tr"
  using assms by (simp add: Debug_def getPodsForWorkload_def Let_def launched_append)

theorem Debug_no_pods_witness:
  "Debug kubeEmpty webConfig [] =
     (Return None,
      [Info (''Fetching workload...'' @ nl),
       PodsList ''team'' ''app.kubernetes.io/name=web'',
       PodsList ''team'' ''app=web'',
       Info (''No pods found.'' @ nl)])
   \<and> launched (snd (Debug kubeEmpty webConfig [])) = []"
  using Debug_no_pods [of kubeEmpty "[]" webConfig]
  by (simp add: kubeEmpty_def webConfig_def)

section \<open>The migration setup\<close>

subsection \<open>Observations distribute over a run\<close>

lemma updates_append: "updates (xs @ ys) = updates xs + updates ys"
  by (induction xs rule: updates.induct) simp_all

lemma resolveCalls_append: "resolveCalls (xs @ ys) = resolveCalls xs @ resolveCalls ys"
  by (induction xs rule: resolveCalls.induct) simp_all

subsection \<open>The formats\<close>

lemma Sprintf_message:
  "Sprintf SetupSuccessMessage [a, b, c, d, e, f, g, h] =
     nl @ ''Migration setup has been started successfully.'' @ nl
     @ nl
     @ ''To monitor the migration, run the following command:'' @ nl
     @ tab @ ''kubectl logs -f -l '' @ a @ '' -n '' @ b @ nl
     @ nl
     @ ''The setup will take some time to complete, you can check completion status with the following command:'' @ nl
     @ tab @ ''kubectl get job '' @ c @ '' -n '' @ d @ nl
     @ nl
     @ ''When setup is complete, a new instance has been created and replication of data has started.'' @ nl
     @ ''You can check the replication progress in the Google Cloud Console:'' @ nl
     @ tab @ e @ nl
     @ nl
     @ ''When the migration has Status Running and is in the CDC or Ready to Promote phase,'' @ nl
     @ ''you can proceed with the next step of the migration:'' @ nl
     @ tab @ ''nais postgres migrate promote '' @ f @ '' '' @ g @ '' '' @ h @ nl
     @ nl
     @ ''Be aware that during promotion (the next step), your instance will be unavailable for some time.'' @ nl"
  by (simp add: SetupSuccessMessage_def nl_def tab_def)

lemma Sprintf_url:
  "Sprintf ''https://console.cloud.google.com/dbmigration/migrations/locations/europe-north1/instances/%s-%s?project=%s'' [a, b, c] =
   ''https://console.cloud.google.com/dbmigration/migrations/locations/europe-north1/instances/'' @ a @ ''-'' @ b @ ''?project='' @ c"
  by simp

subsection \<open>The stages of \<open>Setup\<close>\<close>

text \<open>With no marker found and both instances resolved, \<open>Setup\<close> goes on to the validation.\<close>

lemma Setup_resolved:
  assumes "client_List w (cluster st) (AppNamespace (mcfg st)) ''migrator.nais.io/app-name''
             (AppName (mcfg st)) = (([], None), c1)"
    and "Resolve w c1 (Target (mcfg st)) (AppName (mcfg st)) (AppNamespace (mcfg st))
           = ((tgt, None), c2)"
    and "Resolve w c2 (Source (mcfg st)) (AppName (mcfg st)) (AppNamespace (mcfg st))
           = ((src, None), c3)"
  shows "Setup w wait st =
           setupValidate w wait
             (st\<lparr>mcfg := (mcfg st)\<lparr>Target := tgt, Source := src\<rparr>, cluster := c3,
                 log := log st @ resolvedEvents w (mcfg st) tgt src\<rparr>)"
  using assms by (simp add: Setup_def Let_def resolvedEvents_def)

text \<open>With valid names, the project found and the prompt confirmed, it goes on to the report.\<close>

lemma setupValidate_confirmed:
  assumes "InstanceName (Source (mcfg st)) \<noteq> []" and "InstanceName (Target (mcfg st)) \<noteq> []"
    and "InstanceName (Source (mcfg st)) \<noteq> InstanceName (Target (mcfg st))"
    and "LookupGcpProjectId w (cluster st) (mcfg st) = ((pid, None), c4)"
    and "confirmContinue w = None"
  shows "setupValidate w wait st =
           setupReport w wait pid
             (st\<lparr>cluster := c4, log := log st @ confirmedEvents w (mcfg st)\<rparr>)"
  using assms by (simp add: setupValidate_def Let_def confirmedEvents_def)

lemma Setup_confirmed:
  assumes "client_List w (cluster st) (AppNamespace (mcfg st)) ''migrator.nais.io/app-name''
             (AppName (mcfg st)) = (([], None), c1)"
    and "Resolve w c1 (Target (mcfg st)) (AppName (mcfg st)) (AppNamespace (mcfg st))
           = ((tgt, None), c2)"
    and "Resolve w c2 (Source (mcfg st)) (AppName (mcfg st)) (AppNamespace (mcfg st))
           = ((src, None), c3)"
    and "InstanceName src \<noteq> []" and "InstanceName tgt \<noteq> []"
    and "InstanceName src \<noteq> InstanceName tgt"
    and "LookupGcpProjectId w c3 ((mcfg st)\<lparr>Target := tgt, Source := src\<rparr>) = ((pid, None), c4)"
    and "confirmContinue w = None"
  shows "Setup w wait st =
           setupReport w wait pid
             (st\<lparr>mcfg := (mcfg st)\<lparr>Target := tgt, Source := src\<rparr>, cluster := c4,
                 log := log st @ resolvedEvents w (mcfg st) tgt src
                        @ confirmedEvents w ((mcfg st)\<lparr>Target := tgt, Source := src\<rparr>)\<rparr>)"
  unfolding Setup_resolved [OF assms(1-3)]
  using assms(4-8)
  by (subst setupValidate_confirmed [where pid = pid and ?c4.0 = c4]) simp_all

subsection \<open>The progress display\<close>

lemma spinnerLoop_updates:
  "updates (spinnerLoop w i prevLog tr) = updates tr + (50 - i)"
proof (induction "50 - i" arbitrary: i prevLog tr)
  case 0
  then show ?case by (simp add: spinnerLoop.simps [of w i prevLog tr])
next
  case (Suc d)
  then have lt: "i < 50" and d: "d = 50 - Suc i" by simp_all
  show ?case
    using lt Suc.hyps(1) [OF d]
    by (simp add: spinnerLoop.simps [of w i prevLog tr] Let_def updates_append)
qed

lemma setupReport_cluster: "cluster (snd (setupReport w wait pid st)) = cluster st"
  by (simp add: setupReport_def Let_def split: prod.splits option.splits)

lemma setupReport_nil: "fst (setupReport w wait pid st) = None"
  by (simp add: setupReport_def Let_def split: prod.splits option.splits)

lemma setupReport_progress:
  assumes "spinner_Start w = None" and "multi_Start w = None"
  shows "log (snd (setupReport w True pid st)) =
           spinnerLoop w 0 []
             (log st @ [LogInfo ''Migration setup has started'',
                        SpinnerStart ''Setting up migration'', MultiStart])
           @ [SpinnerSuccess ''Migration setup complete'', MultiStop]"
  using assms by (simp add: setupReport_def doSpinner_def Let_def)

lemma setupReport_fallback:
  assumes "spinner_Start w \<noteq> None \<or> multi_Start w \<noteq> None"
  shows "last (log (snd (setupReport w True pid st))) =
           Print (Sprintf SetupSuccessMessage
                    [kubectlLabelSelector w (mcfg st) (CommandSetup w),
                     AppNamespace (mcfg st), ''jobName'', AppNamespace (mcfg st),
                     Sprintf ''https://console.cloud.google.com/dbmigration/migrations/locations/europe-north1/instances/%s-%s?project=%s''
                       [InstanceName (Source (mcfg st)), InstanceName (Target (mcfg st)), pid],
                     AppName (mcfg st), AppNamespace (mcfg st), InstanceName (Target (mcfg st))])"
proof (cases "spinner_Start w")
  case (Some err)
  then show ?thesis
    by (simp only: setupReport_def doSpinner_def Let_def) simp
next
  case None
  with assms obtain err where "multi_Start w = Some err" by auto
  with None show ?thesis
    by (simp only: setupReport_def doSpinner_def Let_def) simp
qed

lemma events_updates:
  "updates (resolvedEvents w cf tgt src) = 0" "updates (confirmedEvents w cf) = 0"
  by (simp_all add: resolvedEvents_def confirmedEvents_def)

lemma setupValidate_cluster:
  assumes "\<forall>c cf. snd (LookupGcpProjectId w c cf) = c"
  shows "cluster (snd (setupValidate w wait st)) = cluster st"
proof (cases "LookupGcpProjectId w (cluster st) (mcfg st)")
  case (Pair r c)
  with assms [rule_format, of "cluster st" "mcfg st"] have c: "c = cluster st" by simp
  obtain pid err where r: "r = (pid, err)" by (cases r)
  show ?thesis
    using Pair c r
    by (simp add: setupValidate_def Let_def setupReport_cluster split: option.splits)
qed

subsection \<open>The example run\<close>

lemma example_list:
  "client_List exampleWorld (cluster exampleState) (AppNamespace (mcfg exampleState))
     ''migrator.nais.io/app-name'' (AppName (mcfg exampleState)) = (([], None), [])"
  by (simp add: exampleWorld_def exampleState_def)

lemma example_target:
  "Resolve exampleWorld [] (Target (mcfg exampleState)) (AppName (mcfg exampleState))
     (AppNamespace (mcfg exampleState)) = ((\<lparr>InstanceName = ''myapp-new''\<rparr>, None), [])"
  by (simp add: exampleWorld_def exampleState_def)

lemma example_source:
  "Resolve exampleWorld [] (Source (mcfg exampleState)) (AppName (mcfg exampleState))
     (AppNamespace (mcfg exampleState)) = ((\<lparr>InstanceName = ''myapp''\<rparr>, None), [])"
  by (simp add: exampleWorld_def exampleState_def)

lemma example_project:
  "LookupGcpProjectId exampleWorld []
     ((mcfg exampleState)\<lparr>Target := \<lparr>InstanceName = ''myapp-new''\<rparr>,
                           Source := \<lparr>InstanceName = ''myapp''\<rparr>\<rparr>)
     = ((''team-prod-1234'', None), [])"
  by (simp add: exampleWorld_def)

lemma example_names:
  "InstanceName \<lparr>InstanceName = ''myapp''\<rparr> \<noteq> []"
  "InstanceName \<lparr>InstanceName = ''myapp-new''\<rparr> \<noteq> []"
  "InstanceName \<lparr>InstanceName = ''myapp''\<rparr> \<noteq> InstanceName \<lparr>InstanceName = ''myapp-new''\<rparr>"
  by simp_all

lemma example_confirm: "confirmContinue exampleWorld = None"
  by (simp add: exampleWorld_def)

subsection \<open>The claims on the migration setup\<close>

text \<open>
  Claim C2: if the listing of the ConfigMaps labelled \<open>migrator.nais.io/app-name\<close> with the
  application name finds at least one, \<open>Setup\<close> returns the error that a migration already
  exists, after the listing alone: neither instance is resolved and nothing else is done.
\<close>

theorem Setup_existing_marker:
  assumes "client_List w (cluster st) (AppNamespace (mcfg st)) ''migrator.nais.io/app-name''
             (AppName (mcfg st)) = ((items, None), c1)"
    and "items \<noteq> []"
  shows "Setup w wait st =
           (Some (Errorf ''migration config already exists for this application''),
            st\<lparr>cluster := c1,
               log := log st @ [ConfigMapList (AppNamespace (mcfg st)) ''migrator.nais.io/app-name''
                                  (AppName (mcfg st))]\<rparr>)
         \<and> resolveCalls (log (snd (Setup w wait st))) = resolveCalls (log st)"
  using assms by (simp add: Setup_def Let_def resolveCalls_append)

theorem Setup_existing_marker_witness:
  "Setup exampleWorld False markedState =
     (Some (Errorf ''migration config already exists for this application''),
      markedState\<lparr>log := [ConfigMapList ''myteam'' ''migrator.nais.io/app-name'' ''myapp'']\<rparr>)
   \<and> resolveCalls (log (snd (Setup exampleWorld False markedState))) = []"
  using Setup_existing_marker [where w = exampleWorld and st = markedState and wait = False
          and items = "[''migration-myapp'']" and ?c1.0 = "[''migration-myapp'']"]
  by (simp add: exampleWorld_def markedState_def exampleState_def)

text \<open>
  Claim C4: after the resolution \<open>Setup\<close> checks, in this order, that the source instance name
  is not empty, that the target instance name is not empty, and that the two differ; each
  violation is returned as an error with a message of its own, and in each case the run ends
  with the resolution: no project is looked up and no confirmation prompt is shown.
\<close>

theorem Setup_validation_order:
  assumes "client_List w (cluster st) (AppNamespace (mcfg st)) ''migrator.nais.io/app-name''
             (AppName (mcfg st)) = (([], None), c1)"
    and "Resolve w c1 (Target (mcfg st)) (AppName (mcfg st)) (AppNamespace (mcfg st))
           = ((tgt, None), c2)"
    and "Resolve w c2 (Source (mcfg st)) (AppName (mcfg st)) (AppNamespace (mcfg st))
           = ((src, None), c3)"
  shows "(InstanceName src = [] \<longrightarrow>
            fst (Setup w wait st) = Some (Errorf ''source instance name is empty''))
       \<and> (InstanceName src \<noteq> [] \<and> InstanceName tgt = [] \<longrightarrow>
            fst (Setup w wait st) = Some (Errorf ''target instance name is required''))
       \<and> (InstanceName src \<noteq> [] \<and> InstanceName tgt \<noteq> [] \<and> InstanceName src = InstanceName tgt \<longrightarrow>
            fst (Setup w wait st) =
              Some (Errorf ''source and target instance names cannot be the same''))
       \<and> (InstanceName src = [] \<or> InstanceName tgt = [] \<or> InstanceName src = InstanceName tgt \<longrightarrow>
            log (snd (Setup w wait st)) = log st @ resolvedEvents w (mcfg st) tgt src \<and>
            ConfirmPrompt \<notin> set (resolvedEvents w (mcfg st) tgt src) \<and>
            LookupCall \<notin> set (resolvedEvents w (mcfg st) tgt src))"
  unfolding Setup_resolved [OF assms]
  by (auto simp: setupValidate_def Let_def resolvedEvents_def)

theorem Setup_validation_order_witness:
  "fst (Setup exampleWorld False sameNameState) =
     Some (Errorf ''source and target instance names cannot be the same'')
   \<and> log (snd (Setup exampleWorld False sameNameState)) =
       [ConfigMapList ''myteam'' ''migrator.nais.io/app-name'' ''myapp'',
        Print (''Resolving target instance config'' @ nl),
        ResolveCall TargetInstance,
        Print (''Resolved target:'' @ nl @ ''instance myapp'' @ nl),
        Print (''Resolving source instance config'' @ nl),
        ResolveCall SourceInstance,
        Print (''Resolved source:'' @ nl @ ''instance myapp'' @ nl)]"
  using Setup_validation_order [where w = exampleWorld and st = sameNameState and wait = False
          and ?c1.0 = "[]" and ?c2.0 = "[]" and ?c3.0 = "[]"
          and tgt = "\<lparr>InstanceName = ''myapp''\<rparr>" and src = "\<lparr>InstanceName = ''myapp''\<rparr>"]
  by (simp add: exampleWorld_def sameNameState_def exampleState_def resolvedEvents_def)

text \<open>
  Claim C8, as stated: the status-check command names the actual job and the promote command
  is built from the application name, the cluster and the namespace. In the example run the
  status-check line names the fixed text \<open>jobName\<close>, and the promote line ends with the name of
  the target instance, after the application name and the namespace.
\<close>

theorem Setup_message_lines:
  "map (nth (splitLines (last (printed (log (snd (Setup exampleWorld False exampleState)))))))
       [7, 15] =
     [tab @ ''kubectl get job jobName -n myteam'',
      tab @ ''nais postgres migrate promote myapp myteam myapp-new'']"
  by code_simp

text \<open>
  Claim C8, amended: when \<open>Setup\<close> is called with \<open>wait\<close> false and the confirmation succeeds,
  it returns nil, and the last thing it does is to print the completion message: the log-tail
  command with the label selector and the namespace, a status-check command for a job in the
  namespace, the console link with the source instance name, the target instance name and the
  project id, and the promote command with the application name, the namespace and the target
  instance name. (The job named in the status-check command is the fixed text \<open>jobName\<close>.)
\<close>

theorem Setup_completion_message:
  assumes "client_List w (cluster st) (AppNamespace (mcfg st)) ''migrator.nais.io/app-name''
             (AppName (mcfg st)) = (([], None), c1)"
    and "Resolve w c1 (Target (mcfg st)) (AppName (mcfg st)) (AppNamespace (mcfg st))
           = ((tgt, None), c2)"
    and "Resolve w c2 (Source (mcfg st)) (AppName (mcfg st)) (AppNamespace (mcfg st))
           = ((src, None), c3)"
    and "InstanceName src \<noteq> []" and "InstanceName tgt \<noteq> []"
    and "InstanceName src \<noteq> InstanceName tgt"
    and "LookupGcpProjectId w c3 ((mcfg st)\<lparr>Target := tgt, Source := src\<rparr>) = ((pid, None), c4)"
    and "confirmContinue w = None"
  shows "Setup w False st =
     (None,
      st\<lparr>mcfg := (mcfg st)\<lparr>Target := tgt, Source := src\<rparr>, cluster := c4,
         log := log st @ resolvedEvents w (mcfg st) tgt src
           @ confirmedEvents w ((mcfg st)\<lparr>Target := tgt, Source := src\<rparr>)
           @ [Print
             (nl @ ''Migration setup has been started successfully.'' @ nl
              @ nl
              @ ''To monitor the migration, run the following command:'' @ nl
              @ tab @ ''kubectl logs -f -l ''
                  @ kubectlLabelSelector w ((mcfg st)\<lparr>Target := tgt, Source := src\<rparr>) (CommandSetup w)
                  @ '' -n '' @ AppNamespace (mcfg st) @ nl
              @ nl
              @ ''The setup will take some time to complete, you can check completion status with the following command:'' @ nl
              @ tab @ ''kubectl get job '' @ ''jobName'' @ '' -n '' @ AppNamespace (mcfg st) @ nl
              @ nl
              @ ''When setup is complete, a new instance has been created and replication of data has started.'' @ nl
              @ ''You can check the replication progress in the Google Cloud Console:'' @ nl
              @ tab @ ''https://console.cloud.google.com/dbmigration/migrations/locations/europe-north1/instances/''
                  @ InstanceName src @ ''-'' @ InstanceName tgt @ ''?project='' @ pid @ nl
              @ nl
              @ ''When the migration has Status Running and is in the CDC or Ready to Promote phase,'' @ nl
              @ ''you can proceed with the next step of the migration:'' @ nl
              @ tab @ ''nais postgres migrate promote '' @ AppName (mcfg st) @ '' ''
                  @ AppNamespace (mcfg st) @ '' '' @ InstanceName tgt @ nl
              @ nl
              @ ''Be aware that during promotion (the next step), your instance will be unavailable for some time.'' @ nl)]\<rparr>)"
  unfolding Setup_confirmed [OF assms]
  by (simp only: setupReport_def Let_def Sprintf_message Sprintf_url) simp

theorem Setup_completion_message_witness:
  "fst (Setup exampleWorld False exampleState) = None
   \<and> splitLines (last (printed (log (snd (Setup exampleWorld False exampleState))))) =
       [[],
        ''Migration setup has been started successfully.'',
        [],
        ''To monitor the migration, run the following command:'',
        tab @ ''kubectl logs -f -l migrator.nais.io/command=setup -n myteam'',
        [],
        ''The setup will take some time to complete, you can check completion status with the following command:'',
        tab @ ''kubectl get job jobName -n myteam'',
        [],
        ''When setup is complete, a new instance has been created and replication of data has started.'',
        ''You can check the replication progress in the Google Cloud Console:'',
        tab @ ''https://console.cloud.google.com/dbmigration/migrations/locations/europe-north1/instances/myapp-myapp-new?project=team-prod-1234'',
        [],
        ''When the migration has Status Running and is in the CDC or Ready to Promote phase,'',
        ''you can proceed with the next step of the migration:'',
        tab @ ''nais postgres migrate promote myapp myteam myapp-new'',
        [],
        ''Be aware that during promotion (the next step), your instance will be unavailable for some time.'',
        []]"
  unfolding Setup_completion_message [OF example_list example_target example_source
              example_names example_project example_confirm]
  by code_simp

text \<open>
  Claim C9: \<open>Setup\<close> does not change the state of the cluster. Its cluster operations are the
  listing of the ConfigMaps, the resolution of the two instances and the lookup of the project
  id; when these leave the state of the cluster as it is, so does every run of \<open>Setup\<close>.
\<close>

theorem Setup_cluster_unchanged:
  assumes list: "\<forall>c ns key val. snd (client_List w c ns key val) = c"
    and resolve: "\<forall>c i app ns. snd (Resolve w c i app ns) = c"
    and lookup: "\<forall>c cf. snd (LookupGcpProjectId w c cf) = c"
  shows "cluster (snd (Setup w wait st)) = cluster st"
proof -
  obtain items e1 c1 where L: "client_List w (cluster st) (AppNamespace (mcfg st))
      ''migrator.nais.io/app-name'' (AppName (mcfg st)) = ((items, e1), c1)"
    by (metis surj_pair)
  obtain tgt e2 c2 where T: "Resolve w c1 (Target (mcfg st)) (AppName (mcfg st))
      (AppNamespace (mcfg st)) = ((tgt, e2), c2)"
    by (metis surj_pair)
  obtain src e3 c3 where S: "Resolve w c2 (Source (mcfg st)) (AppName (mcfg st))
      (AppNamespace (mcfg st)) = ((src, e3), c3)"
    by (metis surj_pair)
  have c1: "c1 = cluster st" using list [rule_format, of "cluster st"] L by (metis snd_conv)
  have c2: "c2 = c1" using resolve [rule_format, of c1] T by (metis snd_conv)
  have c3: "c3 = c2" using resolve [rule_format, of c2] S by (metis snd_conv)
  show ?thesis
    using L T S c1 c2 c3
    by (simp add: Setup_def Let_def setupValidate_cluster [OF lookup] split: option.splits)
qed

theorem Setup_cluster_unchanged_witness:
  "cluster (snd (Setup exampleWorld True exampleState)) = []
   \<and> cluster (snd (Setup exampleWorld False markedState)) = [''migration-myapp'']"
  using Setup_cluster_unchanged [of exampleWorld True exampleState]
        Setup_cluster_unchanged [of exampleWorld False markedState]
  by (simp add: exampleWorld_def exampleState_def markedState_def)

text \<open>
  Claim C10: once the confirmation has succeeded, \<open>Setup\<close> returns nil, whatever \<open>wait\<close> is.
  With \<open>wait\<close> set and the spinner and the multi printer started, the run ends with the fifty
  rounds of the progress loop, the announcement of success and the stop of the printer; when
  the spinner or the multi printer does not start, the last thing done is to print the
  completion message.
\<close>

theorem Setup_succeeds_after_confirmation:
  assumes "client_List w (cluster st) (AppNamespace (mcfg st)) ''migrator.nais.io/app-name''
             (AppName (mcfg st)) = (([], None), c1)"
    and "Resolve w c1 (Target (mcfg st)) (AppName (mcfg st)) (AppNamespace (mcfg st))
           = ((tgt, None), c2)"
    and "Resolve w c2 (Source (mcfg st)) (AppName (mcfg st)) (AppNamespace (mcfg st))
           = ((src, None), c3)"
    and "InstanceName src \<noteq> []" and "InstanceName tgt \<noteq> []"
    and "InstanceName src \<noteq> InstanceName tgt"
    and "LookupGcpProjectId w c3 ((mcfg st)\<lparr>Target := tgt, Source := src\<rparr>) = ((pid, None), c4)"
    and "confirmContinue w = None"
  shows "fst (Setup w wait st) = None
       \<and> (wait \<and> spinner_Start w = None \<and> multi_Start w = None \<longrightarrow>
            log (snd (Setup w wait st)) =
              spinnerLoop w 0 []
                (log st @ resolvedEvents w (mcfg st) tgt src
                 @ confirmedEvents w ((mcfg st)\<lparr>Target := tgt, Source := src\<rparr>)
                 @ [LogInfo ''Migration setup has started'', SpinnerStart ''Setting up migration'',
                    MultiStart])
              @ [SpinnerSuccess ''Migration setup complete'', MultiStop] \<and>
            updates (log (snd (Setup w wait st))) = updates (log st) + 50)
       \<and> (wait \<and> (spinner_Start w \<noteq> None \<or> multi_Start w \<noteq> None) \<longrightarrow>
            last (log (snd (Setup w wait st))) =
              Print (Sprintf SetupSuccessMessage
                       [kubectlLabelSelector w ((mcfg st)\<lparr>Target := tgt, Source := src\<rparr>)
                          (CommandSetup w),
                        AppNamespace (mcfg st), ''jobName'', AppNamespace (mcfg st),
                        Sprintf ''https://console.cloud.google.com/dbmigration/migrations/locations/europe-north1/instances/%s-%s?project=%s''
                          [InstanceName src, InstanceName tgt, pid],
                        AppName (mcfg st), AppNamespace (mcfg st), InstanceName tgt]))"
proof -
  define st' where
    "st' = st\<lparr>mcfg := (mcfg st)\<lparr>Target := tgt, Source := src\<rparr>, cluster := c4,
               log := log st @ resolvedEvents w (mcfg st) tgt src
                      @ confirmedEvents w ((mcfg st)\<lparr>Target := tgt, Source := src\<rparr>)\<rparr>"
  have run: "Setup w wait st = setupReport w wait pid st'"
    unfolding st'_def by (rule Setup_confirmed [OF assms])
  have fields: "log st' = log st @ resolvedEvents w (mcfg st) tgt src
                          @ confirmedEvents w ((mcfg st)\<lparr>Target := tgt, Source := src\<rparr>)"
               "mcfg st' = (mcfg st)\<lparr>Target := tgt, Source := src\<rparr>"
    by (simp_all add: st'_def)
  have nil: "fst (Setup w wait st) = None"
    unfolding run by (rule setupReport_nil)
  have progress: "log (snd (Setup w wait st)) =
              spinnerLoop w 0 []
                (log st @ resolvedEvents w (mcfg st) tgt src
                 @ confirmedEvents w ((mcfg st)\<lparr>Target := tgt, Source := src\<rparr>)
                 @ [LogInfo ''Migration setup has started'', SpinnerStart ''Setting up migration'',
                    MultiStart])
              @ [SpinnerSuccess ''Migration setup complete'', MultiStop] \<and>
            updates (log (snd (Setup w wait st))) = updates (log st) + 50"
    if "wait \<and> spinner_Start w = None \<and> multi_Start w = None"
  proof -
    from that have wait by simp
    have "log (snd (Setup w wait st)) =
            spinnerLoop w 0 []
              (log st' @ [LogInfo ''Migration setup has started'',
                          SpinnerStart ''Setting up migration'', MultiStart])
            @ [SpinnerSuccess ''Migration setup complete'', MultiStop]"
      unfolding run using that setupReport_progress [of w pid st'] by simp
    then show ?thesis
      by (simp add: fields updates_append spinnerLoop_updates events_updates)
  qed
  have fallback: "last (log (snd (Setup w wait st))) =
              Print (Sprintf SetupSuccessMessage
                       [kubectlLabelSelector w ((mcfg st)\<lparr>Target := tgt, Source := src\<rparr>)
                          (CommandSetup w),
                        AppNamespace (mcfg st), ''jobName'', AppNamespace (mcfg st),
                        Sprintf ''https://console.cloud.google.com/dbmigration/migrations/locations/europe-north1/instances/%s-%s?project=%s''
                          [InstanceName src, InstanceName tgt, pid],
                        AppName (mcfg st), AppNamespace (mcfg st), InstanceName tgt])"
    if "wait \<and> (spinner_Start w \<noteq> None \<or> multi_Start w \<noteq> None)"
  proof -
    from that have waiting: "wait = True"
      and failed: "spinner_Start w \<noteq> None \<or> multi_Start w \<noteq> None"
      by simp_all
    show ?thesis
      unfolding run using setupReport_fallback [OF failed, of pid st'] waiting
      by (simp add: fields)
  qed
  show ?thesis
    using nil progress fallback by blast
qed

theorem Setup_succeeds_after_confirmation_witness:
  "fst (Setup exampleWorld True exampleState) = None
   \<and> updates (log (snd (Setup exampleWorld True exampleState))) = 50
   \<and> fst (Setup exampleWorld False exampleState) = None
   \<and> fst (Setup noSpinnerWorld True exampleState) = None"
proof -
  have started: "spinner_Start exampleWorld = None" "multi_Start exampleWorld = None"
    by (simp_all add: exampleWorld_def)
  have before: "updates (log exampleState) = 0"
    by (simp add: exampleState_def)
  have same: "client_List noSpinnerWorld = client_List exampleWorld"
    "Resolve noSpinnerWorld = Resolve exampleWorld"
    "LookupGcpProjectId noSpinnerWorld = LookupGcpProjectId exampleWorld"
    "confirmContinue noSpinnerWorld = confirmContinue exampleWorld"
    by (simp_all add: noSpinnerWorld_def)
  note waiting = Setup_succeeds_after_confirmation [OF example_list example_target example_source
                   example_names example_project example_confirm, of True]
  note leaving = Setup_succeeds_after_confirmation [OF example_list example_target example_source
                   example_names example_project example_confirm, of False]
  note failing = Setup_succeeds_after_confirmation [where w = noSpinnerWorld and wait = True,
                   OF example_list [folded same] example_target [folded same]
                      example_source [folded same] example_names
                      example_project [folded same] example_confirm [folded same]]
  from waiting started
  have "updates (log (snd (Setup exampleWorld True exampleState))) = updates (log exampleState) + 50"
    by blast
  with before waiting leaving failing show ?thesis
    by simp
qed

end
